theory Spec2Isabelle
  imports Complex_Main "HOL-Library.Sublist"
begin

section \<open>Strings\<close>

text \<open>
  Text is a \<open>string\<close>: one \<open>char\<close> per code unit, restricted to code units below 256.
  \<open>toLowerCase\<close> folds the letters A to Z; the case mappings of characters outside
  ASCII are not represented.
\<close>

definition toLowerChar :: "char \<Rightarrow> char" where
  "toLowerChar c =
     (case map_of (zip ''ABCDEFGHIJKLMNOPQRSTUVWXYZ'' ''abcdefghijklmnopqrstuvwxyz'') c of
        None \<Rightarrow> c
      | Some l \<Rightarrow> l)"

definition toUpperChar :: "char \<Rightarrow> char" where
  "toUpperChar c =
     (case map_of (zip ''abcdefghijklmnopqrstuvwxyz'' ''ABCDEFGHIJKLMNOPQRSTUVWXYZ'') c of
        None \<Rightarrow> c
      | Some u \<Rightarrow> u)"

definition toLowerCase :: "string \<Rightarrow> string" where
  "toLowerCase s = map toLowerChar s"

definition toUpperCase :: "string \<Rightarrow> string" where
  "toUpperCase s = map toUpperChar s"

text \<open>\<open>s.includes(k)\<close>: \<open>k\<close> occurs in \<open>s\<close> as a contiguous run.\<close>

fun includesJS :: "string \<Rightarrow> string \<Rightarrow> bool" where
  "includesJS [] k = (k = [])"
| "includesJS (c # s) k = (prefix k (c # s) \<or> includesJS s k)"

text \<open>
  White space removed by \<open>trim\<close> and skipped by \<open>parseFloat\<close>: tab, line feed, vertical
  tab, form feed, carriage return, space and the no-break space.
\<close>

definition isWhiteSpace :: "char \<Rightarrow> bool" where
  "isWhiteSpace c \<longleftrightarrow>
     c = CHR 0x09 \<or> c = CHR 0x0A \<or> c = CHR 0x0B \<or> c = CHR 0x0C \<or> c = CHR 0x0D
     \<or> c = CHR 0x20 \<or> c = CHR 0xA0"

definition trim :: "string \<Rightarrow> string" where
  "trim s = rev (dropWhile isWhiteSpace (rev (dropWhile isWhiteSpace s)))"

text \<open>\<open>s.split(sep)\<close> for a one-character separator; the result is never empty.\<close>

fun split :: "char \<Rightarrow> string \<Rightarrow> string list" where
  "split sep [] = [[]]"
| "split sep (c # s) =
     (if c = sep then [] # split sep s
      else (case split sep s of
              [] \<Rightarrow> [[c]]
            | p # ps \<Rightarrow> (c # p) # ps))"

text \<open>\<open>xs.join(sep)\<close>.\<close>

fun join :: "string \<Rightarrow> string list \<Rightarrow> string" where
  "join sep [] = []"
| "join sep [x] = x"
| "join sep (x # y # ys) = x @ sep @ join sep (y # ys)"

text \<open>A value that is a string, \<open>null\<close> or \<open>undefined\<close>, and its template-literal rendering.\<close>

datatype jstext = TUndefined | TNull | TString string

fun toStringJS :: "jstext \<Rightarrow> string" where
  "toStringJS TUndefined = ''undefined''"
| "toStringJS TNull = ''null''"
| "toStringJS (TString s) = s"

fun truthyText :: "jstext \<Rightarrow> bool" where
  "truthyText (TString s) = (s \<noteq> [])"
| "truthyText _ = False"

section \<open>Regular expressions\<close>

text \<open>
  The constructs the coordinate pattern uses, closed under derivatives. \<open>Digit\<close> is \<open>\d\<close>,
  which matches the ten ASCII digits only. The pattern is anchored at both ends and has
  no flags, so \<open>test\<close> accepts exactly the strings the whole pattern matches.
\<close>

datatype rexp =
    Zero
  | One
  | Chr char
  | Digit
  | Alt rexp rexp
  | Seq rexp rexp
  | Star rexp

definition Opt :: "rexp \<Rightarrow> rexp" where
  "Opt r = Alt r One"

definition Plus :: "rexp \<Rightarrow> rexp" where
  "Plus r = Seq r (Star r)"

definition isDigit :: "char \<Rightarrow> bool" where
  "isDigit c \<longleftrightarrow> c \<in> set ''0123456789''"

fun nullable :: "rexp \<Rightarrow> bool" where
  "nullable Zero = False"
| "nullable One = True"
| "nullable (Chr a) = False"
| "nullable Digit = False"
| "nullable (Alt r s) = (nullable r \<or> nullable s)"
| "nullable (Seq r s) = (nullable r \<and> nullable s)"
| "nullable (Star r) = True"

fun deriv :: "char \<Rightarrow> rexp \<Rightarrow> rexp" where
  "deriv c Zero = Zero"
| "deriv c One = Zero"
| "deriv c (Chr a) = (if c = a then One else Zero)"
| "deriv c Digit = (if isDigit c then One else Zero)"
| "deriv c (Alt r s) = Alt (deriv c r) (deriv c s)"
| "deriv c (Seq r s) =
     (if nullable r then Alt (Seq (deriv c r) s) (deriv c s) else Seq (deriv c r) s)"
| "deriv c (Star r) = Seq (deriv c r) (Star r)"

fun matches :: "rexp \<Rightarrow> string \<Rightarrow> bool" where
  "matches r [] = nullable r"
| "matches r (c # s) = matches (deriv c r) s"


text \<open>\<open>-?\d+(\.\d+)?\<close>\<close>

definition signedDecimalRE :: rexp where
  "signedDecimalRE =
     Seq (Opt (Chr CHR ''-'')) (Seq (Plus Digit) (Opt (Seq (Chr CHR ''.'') (Plus Digit))))"

text \<open>\<open>/^-?\d+(\.\d+)?,-?\d+(\.\d+)?$/\<close>\<close>

definition coordinatesRE :: rexp where
  "coordinatesRE = Seq signedDecimalRE (Seq (Chr CHR '','') signedDecimalRE)"

text \<open>
  \<open>isValidCoordinates\<close> is the same function in all three files. \<open>regex.test\<close> converts
  its argument to a string first, so an absent text is tested as \<open>undefined\<close>.
\<close>

definition isValidCoordinates :: "jstext \<Rightarrow> bool" where
  "isValidCoordinates text = matches coordinatesRE (toStringJS text)"

section \<open>Numbers\<close>

text \<open>
  A number is \<open>undefined\<close>, \<open>NaN\<close>, an infinity or a finite value. Finite values are kept
  as exact rationals: the rounding of a decimal literal to the nearest double, and the
  overflow of a long literal to an infinity, are not represented.
\<close>

datatype number = Undef | NaN | PosInf | NegInf | Finite rat

definition digitVal :: "char \<Rightarrow> nat" where
  "digitVal c =
     (case map_of (zip ''0123456789'' [0, 1, 2, 3, 4, 5, 6, 7, 8, 9]) c of
        None \<Rightarrow> 0
      | Some d \<Rightarrow> d)"

definition digitsToNat :: "string \<Rightarrow> nat" where
  "digitsToNat ds = foldl (\<lambda>acc c. 10 * acc + digitVal c) 0 ds"

text \<open>The exponent part of a decimal literal: \<open>e\<close> or \<open>E\<close>, a sign, digits; zero when absent.\<close>

definition exponentPart :: "string \<Rightarrow> int" where
  "exponentPart r =
     (case r of
        [] \<Rightarrow> 0
      | c # r' \<Rightarrow>
          if c = CHR ''e'' \<or> c = CHR ''E'' then
            (let neg = (case r' of [] \<Rightarrow> False | d # _ \<Rightarrow> d = CHR ''-'');
                 ds = takeWhile isDigit
                        (case r' of
                           [] \<Rightarrow> []
                         | d # r'' \<Rightarrow> if d = CHR ''-'' \<or> d = CHR ''+'' then r'' else r')
             in if neg then - int (digitsToNat ds) else int (digitsToNat ds))
          else 0)"

text \<open>
  \<open>parseFloat\<close>: skip leading white space, read the longest prefix that is a decimal
  literal (sign, digits, fraction, exponent, or \<open>Infinity\<close>), \<open>NaN\<close> when there is none.
\<close>

definition parseFloat :: "string \<Rightarrow> number" where
  "parseFloat s =
     (let t = dropWhile isWhiteSpace s;
          neg = (case t of [] \<Rightarrow> False | c # _ \<Rightarrow> c = CHR ''-'');
          u = (case t of [] \<Rightarrow> [] | c # r \<Rightarrow> if c = CHR ''-'' \<or> c = CHR ''+'' then r else t)
      in if prefix ''Infinity'' u then (if neg then NegInf else PosInf)
         else
           (let ip = takeWhile isDigit u;
                r1 = dropWhile isDigit u;
                fp = (case r1 of [] \<Rightarrow> [] | c # r \<Rightarrow> if c = CHR ''.'' then takeWhile isDigit r else []);
                r2 = (case r1 of [] \<Rightarrow> [] | c # r \<Rightarrow> if c = CHR ''.'' then dropWhile isDigit r else r1)
            in if ip = [] \<and> fp = [] then NaN
               else
                 (let m = of_nat (digitsToNat ip) + of_nat (digitsToNat fp) / 10 ^ length fp;
                      e = exponentPart r2;
                      v = (if 0 \<le> e then m * 10 ^ nat e else m / 10 ^ nat (- e))
                  in Finite (if neg then - v else v))))"

text \<open>\<open>const [latitude, longitude] = xs\<close>: a missing element is \<open>undefined\<close>.\<close>

fun destructure2 :: "number list \<Rightarrow> number \<times> number" where
  "destructure2 [] = (Undef, Undef)"
| "destructure2 [a] = (a, Undef)"
| "destructure2 (a # b # _) = (a, b)"

text \<open>\<open>text.split(',').map(coord => parseFloat(coord.trim()))\<close>, destructured.\<close>

definition splitCoordinates :: "string \<Rightarrow> number \<times> number" where
  "splitCoordinates t = destructure2 (map (\<lambda>coord. parseFloat (trim coord)) (split CHR '','' t))"


section \<open>Location-intent classifier (index.mjs)\<close>

definition locationKeywords :: "string list" where
  "locationKeywords = [''nearby'', ''close to'', ''around'', ''location'', ''near'', ''place'']"

definition checkIfLocationBased :: "string \<Rightarrow> bool" where
  "checkIfLocationBased query =
     list_ex (\<lambda>keyword. includesJS (toLowerCase query) keyword) locationKeywords"

section \<open>Data model and collaborators\<close>

type_synonym chat_id = int

text \<open>A place of the provider's result list; the program reads its \<open>name\<close> only.\<close>

record place =
  name :: string

text \<open>
  What \<open>data.results\<close> can be: \<open>undefined\<close>, \<open>null\<close>, an array of places, or
  \<open>JTruthy\<close>, a truthy value that is not an array and has neither a \<open>length\<close> of zero nor
  a \<open>map\<close> method (a non-empty string, a non-zero number, \<open>true\<close>). The falsy
  primitives other than \<open>null\<close> are not represented.
\<close>

datatype results_value = JUndefined | JNull | JArray "place list" | JTruthy

text \<open>
  The decoded response body: \<open>Nullish\<close> is \<open>null\<close> or \<open>undefined\<close>, \<open>Obj r\<close> any
  other value, whose \<open>results\<close> property reads as \<open>r\<close>.
\<close>

datatype body = Nullish | Obj results_value

text \<open>
  The places provider either answers with a body, or the call fails: the request is
  rejected, or the body cannot be decoded.
\<close>

datatype provider_outcome = Failure | Response body

record chat_message =
  role :: string
  content :: string

text \<open>
  The completion provider either fails or answers with a list of choices, given by the
  \<open>message.content\<close> of each (\<open>None\<close> for a \<open>null\<close> content).
\<close>

datatype completion_outcome = CompletionFailure | Choices "string option list"

text \<open>The external calls a handler makes, in order.\<close>

datatype event =
    SendMessage chat_id string
  | PlacesSearch number number nat jstext
  | ChatCompletion string "chat_message list" nat

text \<open>
  The environment answers each external call: whether the \<open>fetch\<close> of \<open>sendMessage\<close>
  resolves, what the places provider returns for a position, radius and query, and what
  the completion provider returns for a model, a message list and a token cap.
\<close>

record env =
  fetchSend :: "chat_id \<Rightarrow> string \<Rightarrow> bool"
  placesResponse :: "number \<Rightarrow> number \<Rightarrow> nat \<Rightarrow> jstext \<Rightarrow> provider_outcome"
  completion :: "string \<Rightarrow> chat_message list \<Rightarrow> nat \<Rightarrow> completion_outcome"

text \<open>An exception that rejects the handler's promise.\<close>

datatype error = NetworkError | ProviderError | TypeError

record location =
  latitude :: number
  longitude :: number

text \<open>An inbound message: \<open>message.chat.id\<close>, \<open>message.text\<close>, \<open>message.location\<close>.\<close>

record message =
  chat :: chat_id
  messageText :: jstext
  location :: "location option"

text \<open>\<open>userState\<close> of index.mjs: an absent key reads as \<open>undefined\<close>.\<close>

record conversation_state =
  awaitingLocation :: bool
  query :: string

type_synonym user_state = "chat_id \<rightharpoonup> conversation_state"

section \<open>index.mjs\<close>

definition sendMessage :: "env \<Rightarrow> chat_id \<Rightarrow> string \<Rightarrow> event list \<times> (error + unit)" where
  "sendMessage e chatId txt =
     ([SendMessage chatId txt], if fetchSend e chatId txt then Inr () else Inl NetworkError)"

text \<open>
  \<open>response.choices[0].message.content.trim()\<close>: a \<open>TypeError\<close> when there is no first
  choice or its content is \<open>null\<close>.
\<close>

fun firstChoice :: "completion_outcome \<Rightarrow> error + string" where
  "firstChoice CompletionFailure = Inl ProviderError"
| "firstChoice (Choices []) = Inl TypeError"
| "firstChoice (Choices (None # _)) = Inl TypeError"
| "firstChoice (Choices (Some c # _)) = Inr (trim c)"

definition getChatGPTResponse :: "env \<Rightarrow> string \<Rightarrow> event list \<times> (error + string)" where
  "getChatGPTResponse e userQuery =
     (let messages = [\<lparr>role = ''system'', content = ''You are a helpful assistant.''\<rparr>,
                      \<lparr>role = ''user'', content = userQuery\<rparr>]
      in ([ChatCompletion ''gpt-3.5-turbo'' messages 150],
          firstChoice (completion e ''gpt-3.5-turbo'' messages 150)))"

definition getNearbyPlaces :: "env \<Rightarrow> number \<Rightarrow> number \<Rightarrow> string \<Rightarrow> event list \<times> results_value" where
  "getNearbyPlaces e lat lon q =
     (let radius = 5000
      in ([PlacesSearch lat lon radius (TString q)],
          (case placesResponse e lat lon radius (TString q) of
             Failure \<Rightarrow> JArray []
           | Response Nullish \<Rightarrow> JArray []
           | Response (Obj JUndefined) \<Rightarrow> JArray []
           | Response (Obj JNull) \<Rightarrow> JArray []
           | Response (Obj r) \<Rightarrow> r)))"

definition getSuggestionsFromGPT3 :: "env \<Rightarrow> place list \<Rightarrow> event list \<times> (error + string)" where
  "getSuggestionsFromGPT3 e places =
     (let placeNames = join '', '' (map name places);
          prompt = ''Here are some nearby places: '' @ placeNames
                   @ ''. Please suggest the best ones to visit.'';
          messages = [\<lparr>role = ''system'', content = ''You are a helpful assistant.''\<rparr>,
                      \<lparr>role = ''user'', content = prompt\<rparr>]
      in ([ChatCompletion ''gpt-3.5-turbo'' messages 150],
          firstChoice (completion e ''gpt-3.5-turbo'' messages 150)))"

definition handleLocation ::
  "env \<Rightarrow> user_state \<Rightarrow> chat_id \<Rightarrow> number \<Rightarrow> number \<Rightarrow> string
     \<Rightarrow> user_state \<times> event list \<times> (error + unit)" where
  "handleLocation e st chatId lat lon q =
     (case getNearbyPlaces e lat lon q of (ev1, places) \<Rightarrow>
        (case places of
           JUndefined \<Rightarrow>
             (case sendMessage e chatId
                     (''I couldn't find any nearby '' @ q @ ''. Please try again later.'') of
                (ev2, r) \<Rightarrow> (st, ev1 @ ev2, r))
         | JNull \<Rightarrow>
             (case sendMessage e chatId
                     (''I couldn't find any nearby '' @ q @ ''. Please try again later.'') of
                (ev2, r) \<Rightarrow> (st, ev1 @ ev2, r))
         | JArray [] \<Rightarrow>
             (case sendMessage e chatId
                     (''I couldn't find any nearby '' @ q @ ''. Please try again later.'') of
                (ev2, r) \<Rightarrow> (st, ev1 @ ev2, r))
         | JArray (p # ps) \<Rightarrow>
             (case getSuggestionsFromGPT3 e (p # ps) of
                (ev2, Inl err) \<Rightarrow> (st, ev1 @ ev2, Inl err)
              | (ev2, Inr suggestions) \<Rightarrow>
                  (case sendMessage e chatId suggestions of
                     (ev3, Inl err) \<Rightarrow> (st, ev1 @ ev2 @ ev3, Inl err)
                   | (ev3, Inr _) \<Rightarrow>
                       (st(chatId \<mapsto> \<lparr>awaitingLocation = False, query = []\<rparr>),
                        ev1 @ ev2 @ ev3, Inr ())))
         | JTruthy \<Rightarrow> (st, ev1, Inl TypeError)))"

text \<open>\<open>userState[chatId]?.awaitingLocation\<close>\<close>

definition isAwaiting :: "user_state \<Rightarrow> chat_id \<Rightarrow> bool" where
  "isAwaiting st chatId = (case st chatId of None \<Rightarrow> False | Some s \<Rightarrow> awaitingLocation s)"

text \<open>
  \<open>const { query } = userState[chatId]\<close>, read only where the chat is awaiting a location,
  so where the entry exists.
\<close>

definition storedQuery :: "user_state \<Rightarrow> chat_id \<Rightarrow> string" where
  "storedQuery st chatId = (case st chatId of None \<Rightarrow> [] | Some s \<Rightarrow> query s)"

definition handleMessage ::
  "env \<Rightarrow> user_state \<Rightarrow> message \<Rightarrow> user_state \<times> event list \<times> (error + unit)" where
  "handleMessage e st m =
     (let chatId = chat m; userText = messageText m
      in if userText = TString ''/start'' then
           (case sendMessage e chatId ''Hello! How can I assist you today? Ask me anything!'' of
              (ev, r) \<Rightarrow> (st(chatId \<mapsto> \<lparr>awaitingLocation = False, query = []\<rparr>), ev, r))
         else
           (case location m of
              Some loc \<Rightarrow>
                if isAwaiting st chatId then
                  handleLocation e st chatId (latitude loc) (longitude loc) (storedQuery st chatId)
                else
                  (case sendMessage e chatId
                          ''Thank you for sharing your location! What information do you need?'' of
                     (ev, r) \<Rightarrow> (st, ev, r))
            | None \<Rightarrow>
                if isValidCoordinates userText then
                  (case userText of
                     TString t \<Rightarrow>
                       (case splitCoordinates t of (lat, lon) \<Rightarrow>
                          if isAwaiting st chatId then
                            handleLocation e st chatId lat lon (storedQuery st chatId)
                          else
                            (case sendMessage e chatId
                                    ''Thank you for sharing your coordinates! What information do you need?'' of
                               (ev, r) \<Rightarrow> (st, ev, r)))
                   | _ \<Rightarrow> (st, [], Inl TypeError))
                else
                  (case userText of
                     TString t \<Rightarrow>
                       if checkIfLocationBased t then
                         (case sendMessage e chatId
                                 ''Got it! Now, please share your location for more accurate suggestions.'' of
                            (ev, r) \<Rightarrow>
                              (st(chatId \<mapsto> \<lparr>awaitingLocation = True, query = trim t\<rparr>), ev, r))
                       else
                         (case getChatGPTResponse e t of
                            (ev1, Inl err) \<Rightarrow> (st, ev1, Inl err)
                          | (ev1, Inr response) \<Rightarrow>
                              (case sendMessage e chatId response of
                                 (ev2, r) \<Rightarrow> (st, ev1 @ ev2, r)))
                   | _ \<Rightarrow> (st, [], Inl TypeError))))"

section \<open>bot.mjs\<close>

text \<open>
  The single-purpose variant keeps no conversation state. Its \<open>sendMessage\<close> and
  \<open>isValidCoordinates\<close> are those of index.mjs. The places SDK call either fails or
  yields an object whose \<open>data\<close> is the body; reading \<open>data.results\<close> of a nullish
  body throws inside the \<open>try\<close>.
\<close>

definition getNearbyAmusementParks :: "env \<Rightarrow> number \<Rightarrow> number \<Rightarrow> event list \<times> results_value" where
  "getNearbyAmusementParks e lat lon =
     (let radius = 100000; q = ''amusement''
      in ([PlacesSearch lat lon radius (TString q)],
          (case placesResponse e lat lon radius (TString q) of
             Failure \<Rightarrow> JArray []
           | Response Nullish \<Rightarrow> JArray []
           | Response (Obj r) \<Rightarrow> r)))"

definition getSuggestionsFromGPT3_bot :: "env \<Rightarrow> place list \<Rightarrow> event list \<times> (error + string)" where
  "getSuggestionsFromGPT3_bot e amusementParks =
     (let amusementNames = join '', '' (map name amusementParks);
          prompt = ''Here are some nearby amusementParks: '' @ amusementNames
                   @ ''. Please suggest the best ones to visit.'';
          messages = [\<lparr>role = ''system'', content = ''You are a helpful assistant.''\<rparr>,
                      \<lparr>role = ''user'', content = prompt\<rparr>]
      in ([ChatCompletion ''gpt-3.5-turbo'' messages 150],
          firstChoice (completion e ''gpt-3.5-turbo'' messages 150)))"

definition handleLocation_bot ::
  "env \<Rightarrow> chat_id \<Rightarrow> number \<Rightarrow> number \<Rightarrow> event list \<times> (error + unit)" where
  "handleLocation_bot e chatId lat lon =
     (case getNearbyAmusementParks e lat lon of (ev1, amusementParks) \<Rightarrow>
        (case amusementParks of
           JUndefined \<Rightarrow> (ev1, Inl TypeError)
         | JNull \<Rightarrow> (ev1, Inl TypeError)
         | JArray [] \<Rightarrow>
             (case sendMessage e chatId
                     ''I couldn't find any nearby tourist spots. Please try again later.'' of
                (ev2, r) \<Rightarrow> (ev1 @ ev2, r))
         | JArray (p # ps) \<Rightarrow>
             (case getSuggestionsFromGPT3_bot e (p # ps) of
                (ev2, Inl err) \<Rightarrow> (ev1 @ ev2, Inl err)
              | (ev2, Inr suggestions) \<Rightarrow>
                  (case sendMessage e chatId suggestions of
                     (ev3, r) \<Rightarrow> (ev1 @ ev2 @ ev3, r)))
         | JTruthy \<Rightarrow> (ev1, Inl TypeError)))"

definition handleMessage_bot :: "env \<Rightarrow> message \<Rightarrow> event list \<times> (error + unit)" where
  \<open>handleMessage_bot e m =
     (let chatId = chat m
      in if messageText m = TString ''/start'' then
           sendMessage e chatId
             ''Hello! Please share your location to get nearby amusment park suggestions. You can also send your location coordinates in the format "latitude,longitude".''
         else
           (case location m of
              Some loc \<Rightarrow> handleLocation_bot e chatId (latitude loc) (longitude loc)
            | None \<Rightarrow>
                if truthyText (messageText m) \<and> isValidCoordinates (messageText m) then
                  (case messageText m of
                     TString t \<Rightarrow>
                       (case splitCoordinates t of (lat, lon) \<Rightarrow>
                          handleLocation_bot e chatId lat lon)
                   | _ \<Rightarrow> ([], Inl TypeError))
                else
                  sendMessage e chatId
                    ''Please send your location or coordinates in the format "latitude,longitude".''))\<close>

section \<open>The search-term variant (unnamed part 000)\<close>

text \<open>
  \<open>userSearchTerms\<close>: the search term of each chat, \<open>undefined\<close> for an absent key and
  \<open>null\<close> after a reset. \<open>sendMessage\<close>, \<open>getSuggestionsFromGPT3\<close> and
  \<open>isValidCoordinates\<close> are those of index.mjs.
\<close>

type_synonym user_search_terms = "chat_id \<Rightarrow> jstext"

definition getNearbyPlaces_part000 ::
  "env \<Rightarrow> number \<Rightarrow> number \<Rightarrow> jstext \<Rightarrow> event list \<times> results_value" where
  "getNearbyPlaces_part000 e lat lon q =
     (let radius = 5000
      in ([PlacesSearch lat lon radius q],
          (case placesResponse e lat lon radius q of
             Failure \<Rightarrow> JArray []
           | Response Nullish \<Rightarrow> JArray []
           | Response (Obj r) \<Rightarrow> r)))"

definition handleLocation_part000 ::
  "env \<Rightarrow> user_search_terms \<Rightarrow> chat_id \<Rightarrow> number \<Rightarrow> number
     \<Rightarrow> user_search_terms \<times> event list \<times> (error + unit)" where
  "handleLocation_part000 e st chatId lat lon =
     (let searchTerm = st chatId
      in case getNearbyPlaces_part000 e lat lon searchTerm of (ev1, places) \<Rightarrow>
        (case places of
           JUndefined \<Rightarrow> (st, ev1, Inl TypeError)
         | JNull \<Rightarrow> (st, ev1, Inl TypeError)
         | JArray [] \<Rightarrow>
             (case sendMessage e chatId
                     (''I couldn't find any nearby '' @ toStringJS searchTerm
                      @ ''. Please try again later.'') of
                (ev2, r) \<Rightarrow> (st, ev1 @ ev2, r))
         | JArray (p # ps) \<Rightarrow>
             (case getSuggestionsFromGPT3 e (p # ps) of
                (ev2, Inl err) \<Rightarrow> (st, ev1 @ ev2, Inl err)
              | (ev2, Inr suggestions) \<Rightarrow>
                  (case sendMessage e chatId suggestions of
                     (ev3, Inl err) \<Rightarrow> (st, ev1 @ ev2 @ ev3, Inl err)
                   | (ev3, Inr _) \<Rightarrow> (st(chatId := TNull), ev1 @ ev2 @ ev3, Inr ())))
         | JTruthy \<Rightarrow> (st, ev1, Inl TypeError)))"

definition handleMessage_part000 ::
  "env \<Rightarrow> user_search_terms \<Rightarrow> message
     \<Rightarrow> user_search_terms \<times> event list \<times> (error + unit)" where
  \<open>handleMessage_part000 e st m =
     (let chatId = chat m
      in if messageText m = TString ''/start'' then
           (case sendMessage e chatId
                   ''Hello! What do you want to search nearby? Please enter your query.'' of
              (ev, r) \<Rightarrow> (st(chatId := TNull), ev, r))
         else if \<not> truthyText (st chatId) \<and> truthyText (messageText m) then
           (case messageText m of
              TString t \<Rightarrow>
                (case sendMessage e chatId ''Please share your location.'' of
                   (ev, r) \<Rightarrow> (st(chatId := TString (trim t)), ev, r))
            | _ \<Rightarrow> (st, [], Inl TypeError))
         else
           (case location m of
              Some loc \<Rightarrow> handleLocation_part000 e st chatId (latitude loc) (longitude loc)
            | None \<Rightarrow>
                if truthyText (messageText m) \<and> isValidCoordinates (messageText m) then
                  (case messageText m of
                     TString t \<Rightarrow>
                       (case splitCoordinates t of (lat, lon) \<Rightarrow>
                          handleLocation_part000 e st chatId lat lon)
                   | _ \<Rightarrow> (st, [], Inl TypeError))
                else
                  (case sendMessage e chatId
                          ''Please send your location or coordinates in the format "latitude,longitude".'' of
                     (ev, r) \<Rightarrow> (st, ev, r))))\<close>

section \<open>The specification's reading, for comparison\<close>

text \<open>
  The dispatcher's three rules in the order the specification gives them: the start
  command; a location payload or a text the coordinate parser accepts; anything else.
\<close>

datatype rule = StartRule | LocationRule | FreeTextRule

definition spec_precedence :: "message \<Rightarrow> rule" where
  "spec_precedence m =
     (if messageText m = TString ''/start'' then StartRule
      else if location m \<noteq> None \<or> isValidCoordinates (messageText m) then LocationRule
      else FreeTextRule)"





section \<open>Environments for worked examples\<close>

text \<open>
  An environment whose answers do not depend on the request: whether sends resolve, what
  the places provider returns, what the completion provider returns.
\<close>

definition constEnv :: "bool \<Rightarrow> provider_outcome \<Rightarrow> completion_outcome \<Rightarrow> env" where
  "constEnv s p c =
     \<lparr>fetchSend = \<lambda>_ _. s, placesResponse = \<lambda>_ _ _ _. p, completion = \<lambda>_ _ _. c\<rparr>"

section \<open>Lemmas on strings\<close>

lemma includesJS_sublist: "includesJS s k \<longleftrightarrow> sublist k s"
  by (induction s) (simp_all add: sublist_Cons_right)

lemma toLower_toUpper_char: "toLowerChar (toUpperChar c) = toLowerChar c"
  unfolding toLowerChar_def toUpperChar_def by (simp split: if_splits)

lemma toLowerCase_toUpperCase: "toLowerCase (toUpperCase s) = toLowerCase s"
  by (simp add: toLowerCase_def toUpperCase_def toLower_toUpper_char)

lemma toLowerCase_idem: "toLowerCase (toLowerCase s) = toLowerCase s"
proof -
  have "toLowerChar (toLowerChar c) = toLowerChar c" for c
    unfolding toLowerChar_def by (simp split: if_splits)
  then show ?thesis by (simp add: toLowerCase_def)
qed

section \<open>Lemmas on the handlers\<close>

lemma handleMessage_location:
  "messageText m \<noteq> TString ''/start'' \<Longrightarrow> location m = Some loc \<Longrightarrow> isAwaiting st (chat m) \<Longrightarrow>
   handleMessage e st m =
     handleLocation e st (chat m) (latitude loc) (longitude loc) (storedQuery st (chat m))"
  by (simp add: handleMessage_def Let_def)

lemma handleMessage_coordinates:
  "messageText m = TString t \<Longrightarrow> t \<noteq> ''/start'' \<Longrightarrow> location m = None \<Longrightarrow>
   isValidCoordinates (TString t) \<Longrightarrow> isAwaiting st (chat m) \<Longrightarrow>
   handleMessage e st m =
     handleLocation e st (chat m) (fst (splitCoordinates t)) (snd (splitCoordinates t))
       (storedQuery st (chat m))"
  by (simp add: handleMessage_def Let_def split: prod.splits)

lemma handleMessage_position:
  assumes "isAwaiting st (chat m)" and "messageText m \<noteq> TString ''/start''"
    and "location m = Some \<lparr>latitude = lat, longitude = lon\<rparr>
         \<or> (location m = None
            \<and> (\<exists>t. messageText m = TString t \<and> isValidCoordinates (TString t)
                    \<and> splitCoordinates t = (lat, lon)))"
  shows "handleMessage e st m = handleLocation e st (chat m) lat lon (storedQuery st (chat m))"
  using assms handleMessage_location [of m "\<lparr>latitude = lat, longitude = lon\<rparr>" st e]
    handleMessage_coordinates [of m _ st e]
  by auto

lemma handleLocation_empty:
  "snd (getNearbyPlaces e lat lon q) = JArray [] \<Longrightarrow>
   handleLocation e st chatId lat lon q =
     (st,
      [PlacesSearch lat lon 5000 (TString q),
       SendMessage chatId (''I couldn't find any nearby '' @ q @ ''. Please try again later.'')],
      if fetchSend e chatId (''I couldn't find any nearby '' @ q @ ''. Please try again later.'')
      then Inr () else Inl NetworkError)"
  by (cases "getNearbyPlaces e lat lon q")
     (auto simp add: handleLocation_def sendMessage_def getNearbyPlaces_def)

lemma getSuggestionsFromGPT3_events:
  "fst (getSuggestionsFromGPT3 e places) =
     [ChatCompletion ''gpt-3.5-turbo''
        [\<lparr>role = ''system'', content = ''You are a helpful assistant.''\<rparr>,
         \<lparr>role = ''user'',
          content = ''Here are some nearby places: '' @ join '', '' (map name places)
                    @ ''. Please suggest the best ones to visit.''\<rparr>]
        150]"
  by (simp add: getSuggestionsFromGPT3_def Let_def)

lemma handleLocation_success:
  "snd (getNearbyPlaces e lat lon q) = JArray (p # ps) \<Longrightarrow>
   snd (getSuggestionsFromGPT3 e (p # ps)) = Inr s \<Longrightarrow> fetchSend e chatId s \<Longrightarrow>
   handleLocation e st chatId lat lon q =
     (st(chatId \<mapsto> \<lparr>awaitingLocation = False, query = ''''\<rparr>),
      PlacesSearch lat lon 5000 (TString q) # fst (getSuggestionsFromGPT3 e (p # ps))
        @ [SendMessage chatId s],
      Inr ())"
  by (cases "getNearbyPlaces e lat lon q"; cases "getSuggestionsFromGPT3 e (p # ps)")
     (auto simp add: handleLocation_def sendMessage_def getNearbyPlaces_def)

lemma handleLocation_summarizer_fails:
  "snd (getNearbyPlaces e lat lon q) = JArray (p # ps) \<Longrightarrow>
   snd (getSuggestionsFromGPT3 e (p # ps)) = Inl err \<Longrightarrow>
   handleLocation e st chatId lat lon q =
     (st, PlacesSearch lat lon 5000 (TString q) # fst (getSuggestionsFromGPT3 e (p # ps)), Inl err)"
  by (cases "getNearbyPlaces e lat lon q"; cases "getSuggestionsFromGPT3 e (p # ps)")
     (auto simp add: handleLocation_def getNearbyPlaces_def)

lemma trim_spec:
  "\<exists>u v. c = u @ trim c @ v \<and> list_all isWhiteSpace u \<and> list_all isWhiteSpace v
          \<and> (trim c \<noteq> [] \<longrightarrow> \<not> isWhiteSpace (hd (trim c)) \<and> \<not> isWhiteSpace (last (trim c)))"
proof -
  define d where "d = dropWhile isWhiteSpace c"
  define u where "u = takeWhile isWhiteSpace c"
  define v where "v = rev (takeWhile isWhiteSpace (rev d))"
  have tr: "trim c = rev (dropWhile isWhiteSpace (rev d))"
    by (simp add: trim_def d_def)
  have c: "c = u @ d" by (simp add: u_def d_def)
  have "rev (dropWhile isWhiteSpace (rev d)) @ rev (takeWhile isWhiteSpace (rev d))
          = rev (takeWhile isWhiteSpace (rev d) @ dropWhile isWhiteSpace (rev d))"
    by (simp only: rev_append)
  also have "\<dots> = rev (rev d)" by (simp only: takeWhile_dropWhile_id)
  finally have d: "d = trim c @ v" by (simp add: tr v_def)
  have wu: "list_all isWhiteSpace u"
    by (simp add: u_def list_all_iff) (meson set_takeWhileD)
  have wv: "list_all isWhiteSpace v"
    by (simp add: v_def list_all_iff) (meson set_takeWhileD)
  have lst: "\<not> isWhiteSpace (last (trim c))" if ne: "trim c \<noteq> []"
  proof -
    have "dropWhile isWhiteSpace (rev d) \<noteq> []" using ne tr by simp
    then have "\<not> isWhiteSpace (hd (dropWhile isWhiteSpace (rev d)))" by (rule hd_dropWhile)
    then show ?thesis using ne tr by (simp add: last_rev)
  qed
  have hdd: "\<not> isWhiteSpace (hd (trim c))" if ne: "trim c \<noteq> []"
  proof -
    have "d \<noteq> []" using ne d by auto
    then have "\<not> isWhiteSpace (hd d)" unfolding d_def by (rule hd_dropWhile)
    then show ?thesis using ne d by (metis hd_append2)
  qed
  from c d wu wv lst hdd show ?thesis by (metis append.assoc) 
qed

lemma isValidCoordinates_text:
  "isValidCoordinates x \<Longrightarrow> \<exists>t. x = TString t \<and> t \<noteq> []"
  by (cases x)
     (auto simp add: isValidCoordinates_def coordinatesRE_def signedDecimalRE_def Opt_def
        Plus_def isDigit_def)

lemma precedence_start:
  "spec_precedence m = StartRule \<longleftrightarrow> messageText m = TString ''/start''"
  by (simp add: spec_precedence_def)

lemma precedence_location:
  "spec_precedence m = LocationRule \<longleftrightarrow>
     messageText m \<noteq> TString ''/start''
     \<and> (location m \<noteq> None \<or> isValidCoordinates (messageText m))"
  by (simp add: spec_precedence_def)

lemma precedence_freeText:
  "spec_precedence m = FreeTextRule \<longleftrightarrow>
     messageText m \<noteq> TString ''/start'' \<and> location m = None
     \<and> \<not> isValidCoordinates (messageText m)"
  by (simp add: spec_precedence_def)

lemma index_start:
  assumes "spec_precedence m = StartRule"
  shows "handleMessage e st m =
           (st(chat m \<mapsto> \<lparr>awaitingLocation = False, query = []\<rparr>),
            [SendMessage (chat m) ''Hello! How can I assist you today? Ask me anything!''],
            snd (sendMessage e (chat m) ''Hello! How can I assist you today? Ask me anything!''))"
  using assms by (simp add: precedence_start handleMessage_def sendMessage_def Let_def)

lemma index_location_awaiting:
  assumes "spec_precedence m = LocationRule" and "isAwaiting st (chat m)"
  shows "\<exists>lat lon.
           (location m = Some \<lparr>latitude = lat, longitude = lon\<rparr>
            \<or> (location m = None
               \<and> (\<exists>t. messageText m = TString t \<and> splitCoordinates t = (lat, lon))))
           \<and> handleMessage e st m =
               handleLocation e st (chat m) lat lon (storedQuery st (chat m))"
proof (cases "location m")
  case (Some loc)
  have "loc = \<lparr>latitude = latitude loc, longitude = longitude loc\<rparr>" by simp
  then have l: "location m = Some \<lparr>latitude = latitude loc, longitude = longitude loc\<rparr>"
    using Some by simp
  have "handleMessage e st m =
        handleLocation e st (chat m) (latitude loc) (longitude loc) (storedQuery st (chat m))"
    using assms Some by (simp add: precedence_location handleMessage_location)
  with l show ?thesis by blast
next
  case None
  then have v: "isValidCoordinates (messageText m)"
    using assms(1) by (simp add: precedence_location)
  then obtain t where t: "messageText m = TString t" using isValidCoordinates_text by blast
  obtain lat lon where sp: "splitCoordinates t = (lat, lon)" by (cases "splitCoordinates t")
  have "handleMessage e st m = handleLocation e st (chat m) lat lon (storedQuery st (chat m))"
    using assms None v t sp
    by (intro handleMessage_position) (auto simp add: precedence_location)
  with None t sp show ?thesis by blast
qed

lemma index_location_idle:
  assumes "spec_precedence m = LocationRule" and "\<not> isAwaiting st (chat m)"
  shows "fst (handleMessage e st m) = st
       \<and> (fst (snd (handleMessage e st m)) =
             [SendMessage (chat m)
                ''Thank you for sharing your location! What information do you need?'']
          \<or> fst (snd (handleMessage e st m)) =
             [SendMessage (chat m)
                ''Thank you for sharing your coordinates! What information do you need?''])"
proof (cases "location m")
  case (Some loc)
  then show ?thesis
    using assms by (simp add: precedence_location handleMessage_def sendMessage_def Let_def)
next
  case None
  then have v: "isValidCoordinates (messageText m)"
    using assms(1) by (simp add: precedence_location)
  then obtain t where t: "messageText m = TString t" using isValidCoordinates_text by blast
  show ?thesis
    using assms None v t
    by (simp add: precedence_location handleMessage_def sendMessage_def Let_def
          split: prod.splits)
qed

lemma index_freeText:
  assumes "spec_precedence m = FreeTextRule" and "messageText m = TString t"
  shows "(checkIfLocationBased t \<longrightarrow>
            fst (handleMessage e st m) = st(chat m \<mapsto> \<lparr>awaitingLocation = True, query = trim t\<rparr>)
            \<and> fst (snd (handleMessage e st m)) =
                [SendMessage (chat m)
                   ''Got it! Now, please share your location for more accurate suggestions.''])
       \<and> (\<not> checkIfLocationBased t \<longrightarrow>
            fst (handleMessage e st m) = st
            \<and> hd (fst (snd (handleMessage e st m))) =
                ChatCompletion ''gpt-3.5-turbo''
                  [\<lparr>role = ''system'', content = ''You are a helpful assistant.''\<rparr>,
                   \<lparr>role = ''user'', content = t\<rparr>]
                  150)"
proof -
  have ev: "fst (getChatGPTResponse e t) =
      [ChatCompletion ''gpt-3.5-turbo''
         [\<lparr>role = ''system'', content = ''You are a helpful assistant.''\<rparr>,
          \<lparr>role = ''user'', content = t\<rparr>]
         150]"
    by (simp add: getChatGPTResponse_def Let_def)
  show ?thesis
    using assms ev
    by (cases "getChatGPTResponse e t"; cases "snd (getChatGPTResponse e t)")
       (auto simp add: precedence_freeText handleMessage_def sendMessage_def Let_def)
qed

lemma bot_start:
  assumes "spec_precedence m = StartRule"
  shows \<open>handleMessage_bot e m =
           sendMessage e (chat m)
             ''Hello! Please share your location to get nearby amusment park suggestions. You can also send your location coordinates in the format "latitude,longitude".''\<close>
  using assms by (simp add: precedence_start handleMessage_bot_def Let_def)

lemma bot_location:
  assumes "spec_precedence m = LocationRule"
  shows "\<exists>lat lon.
           (location m = Some \<lparr>latitude = lat, longitude = lon\<rparr>
            \<or> (location m = None
               \<and> (\<exists>t. messageText m = TString t \<and> splitCoordinates t = (lat, lon))))
           \<and> handleMessage_bot e m = handleLocation_bot e (chat m) lat lon"
proof (cases "location m")
  case (Some loc)
  have "loc = \<lparr>latitude = latitude loc, longitude = longitude loc\<rparr>" by simp
  then have l: "location m = Some \<lparr>latitude = latitude loc, longitude = longitude loc\<rparr>"
    using Some by simp
  have "handleMessage_bot e m = handleLocation_bot e (chat m) (latitude loc) (longitude loc)"
    using assms Some by (simp add: precedence_location handleMessage_bot_def Let_def)
  with l show ?thesis by blast
next
  case None
  then have v: "isValidCoordinates (messageText m)"
    using assms(1) by (simp add: precedence_location)
  then obtain t where t: "messageText m = TString t" "t \<noteq> []"
    using isValidCoordinates_text by blast
  obtain lat lon where sp: "splitCoordinates t = (lat, lon)" by (cases "splitCoordinates t")
  have "handleMessage_bot e m = handleLocation_bot e (chat m) lat lon"
    using assms None v t sp by (simp add: precedence_location handleMessage_bot_def Let_def)
  with None t sp show ?thesis by blast
qed

lemma bot_freeText:
  assumes "spec_precedence m = FreeTextRule"
  shows \<open>handleMessage_bot e m =
           sendMessage e (chat m)
             ''Please send your location or coordinates in the format "latitude,longitude".''\<close>
  using assms by (simp add: precedence_freeText handleMessage_bot_def Let_def)

lemma part000_start:
  assumes "spec_precedence m = StartRule"
  shows "handleMessage_part000 e terms m =
           (terms(chat m := TNull),
            [SendMessage (chat m)
               ''Hello! What do you want to search nearby? Please enter your query.''],
            snd (sendMessage e (chat m)
                   ''Hello! What do you want to search nearby? Please enter your query.''))"
  using assms by (simp add: precedence_start handleMessage_part000_def sendMessage_def Let_def)

lemma part000_term:
  assumes "spec_precedence m \<noteq> StartRule" and "\<not> truthyText (terms (chat m))"
    and "messageText m = TString t" and "t \<noteq> []"
  shows "handleMessage_part000 e terms m =
           (terms(chat m := TString (trim t)),
            [SendMessage (chat m) ''Please share your location.''],
            snd (sendMessage e (chat m) ''Please share your location.''))"
  using assms by (simp add: precedence_start handleMessage_part000_def sendMessage_def Let_def)

lemma part000_location:
  assumes "spec_precedence m = LocationRule"
    and "truthyText (terms (chat m)) \<or> \<not> truthyText (messageText m)"
  shows "\<exists>lat lon.
           (location m = Some \<lparr>latitude = lat, longitude = lon\<rparr>
            \<or> (location m = None
               \<and> (\<exists>t. messageText m = TString t \<and> splitCoordinates t = (lat, lon))))
           \<and> handleMessage_part000 e terms m = handleLocation_part000 e terms (chat m) lat lon"
proof (cases "location m")
  case (Some loc)
  have "loc = \<lparr>latitude = latitude loc, longitude = longitude loc\<rparr>" by simp
  then have l: "location m = Some \<lparr>latitude = latitude loc, longitude = longitude loc\<rparr>"
    using Some by simp
  have "handleMessage_part000 e terms m =
          handleLocation_part000 e terms (chat m) (latitude loc) (longitude loc)"
    using assms Some by (auto simp add: precedence_location handleMessage_part000_def Let_def)
  with l show ?thesis by blast
next
  case None
  then have v: "isValidCoordinates (messageText m)"
    using assms(1) by (simp add: precedence_location)
  then obtain t where t: "messageText m = TString t" "t \<noteq> []"
    using isValidCoordinates_text by blast
  obtain lat lon where sp: "splitCoordinates t = (lat, lon)" by (cases "splitCoordinates t")
  have "handleMessage_part000 e terms m = handleLocation_part000 e terms (chat m) lat lon"
    using assms None v t sp
    by (auto simp add: precedence_location handleMessage_part000_def Let_def)
  with None t sp show ?thesis by blast
qed

lemma part000_freeText:
  assumes "spec_precedence m = FreeTextRule"
    and "truthyText (terms (chat m)) \<or> \<not> truthyText (messageText m)"
  shows \<open>handleMessage_part000 e terms m =
           (terms,
            [SendMessage (chat m)
               ''Please send your location or coordinates in the format "latitude,longitude".''],
            snd (sendMessage e (chat m)
                   ''Please send your location or coordinates in the format "latitude,longitude".''))\<close>
  using assms
  by (auto simp add: precedence_freeText handleMessage_part000_def sendMessage_def Let_def)

section \<open>Lemmas on the coordinate pattern\<close>




















lemma takeWhile_all_digits:
  assumes "list_all isDigit g"
  shows "takeWhile isDigit g = g" and "dropWhile isDigit g = []"
  using assms by (simp_all add: list_all_iff)




section \<open>Claims\<close>

text \<open>
  C1, as stated, fails on the empty branch. A chat awaiting a location for the query
  "pizza nearby" receives a location and the lookup returns no place: the not-found
  reply is sent, and \<open>handleLocation\<close> returns before the reset, so the chat is still
  awaiting a location with the same query.
\<close>

theorem C1_empty_lookup_keeps_state:
  "snd (getNearbyPlaces (constEnv True (Response (Obj (JArray []))) CompletionFailure)
          (Finite 40) (Finite (- 74)) ''pizza nearby'') = JArray []
   \<and> isAwaiting [1 \<mapsto> \<lparr>awaitingLocation = True, query = ''pizza nearby''\<rparr>] 1
   \<and> handleMessage (constEnv True (Response (Obj (JArray []))) CompletionFailure)
        [1 \<mapsto> \<lparr>awaitingLocation = True, query = ''pizza nearby''\<rparr>]
        \<lparr>chat = 1, messageText = TUndefined,
         location = Some \<lparr>latitude = Finite 40, longitude = Finite (- 74)\<rparr>\<rparr>
      = ([1 \<mapsto> \<lparr>awaitingLocation = True, query = ''pizza nearby''\<rparr>],
         [PlacesSearch (Finite 40) (Finite (- 74)) 5000 (TString ''pizza nearby''),
          SendMessage 1 ''I couldn't find any nearby pizza nearby. Please try again later.''],
         Inr ())
   \<and> isAwaiting
        (fst (handleMessage (constEnv True (Response (Obj (JArray []))) CompletionFailure)
                [1 \<mapsto> \<lparr>awaitingLocation = True, query = ''pizza nearby''\<rparr>]
                \<lparr>chat = 1, messageText = TUndefined,
                 location = Some \<lparr>latitude = Finite 40, longitude = Finite (- 74)\<rparr>\<rparr>)) 1"
  by (simp add: handleMessage_def handleLocation_def getNearbyPlaces_def sendMessage_def
        constEnv_def isAwaiting_def storedQuery_def Let_def)

text \<open>
  C1, amended. A chat in state AwaitingLocation(q) receives a location payload or a
  coordinate text. If Places Lookup returns an empty sequence, the reply is
  "I couldn't find any nearby q. Please try again later." and the conversation state is
  left as it was. If the sequence is non-empty, the Summarizer call succeeds and the send
  resolves, the Summarizer's output is sent and the chat is reset to Idle with an empty
  query.
\<close>

theorem C1_enrichment:
  assumes "isAwaiting st (chat m)" and "messageText m \<noteq> TString ''/start''"
    and "location m = Some \<lparr>latitude = lat, longitude = lon\<rparr>
         \<or> (location m = None
            \<and> (\<exists>t. messageText m = TString t \<and> isValidCoordinates (TString t)
                    \<and> splitCoordinates t = (lat, lon)))"
  shows "(snd (getNearbyPlaces e lat lon (storedQuery st (chat m))) = JArray [] \<longrightarrow>
            handleMessage e st m =
              (st,
               [PlacesSearch lat lon 5000 (TString (storedQuery st (chat m))),
                SendMessage (chat m)
                  (''I couldn't find any nearby '' @ storedQuery st (chat m)
                   @ ''. Please try again later.'')],
               if fetchSend e (chat m)
                    (''I couldn't find any nearby '' @ storedQuery st (chat m)
                     @ ''. Please try again later.'')
               then Inr () else Inl NetworkError))
       \<and> (\<forall>p ps s.
             snd (getNearbyPlaces e lat lon (storedQuery st (chat m))) = JArray (p # ps)
             \<and> snd (getSuggestionsFromGPT3 e (p # ps)) = Inr s \<and> fetchSend e (chat m) s \<longrightarrow>
             handleMessage e st m =
               (st(chat m \<mapsto> \<lparr>awaitingLocation = False, query = []\<rparr>),
                PlacesSearch lat lon 5000 (TString (storedQuery st (chat m)))
                  # fst (getSuggestionsFromGPT3 e (p # ps)) @ [SendMessage (chat m) s],
                Inr ()))"
proof -
  have eq: "handleMessage e st m = handleLocation e st (chat m) lat lon (storedQuery st (chat m))"
    using assms by (rule handleMessage_position)
  show ?thesis
    unfolding eq using handleLocation_empty handleLocation_success by blast
qed

theorem C1_enrichment_witness:
  "handleMessage (constEnv True (Response (Obj (JArray [\<lparr>name = ''Roma''\<rparr>, \<lparr>name = ''Napoli''\<rparr>])))
                   (Choices [Some '' Try Roma. '']))
        [1 \<mapsto> \<lparr>awaitingLocation = True, query = ''pizza nearby''\<rparr>]
        \<lparr>chat = 1, messageText = TUndefined,
         location = Some \<lparr>latitude = Finite 40, longitude = Finite (- 74)\<rparr>\<rparr>
      = ([1 \<mapsto> \<lparr>awaitingLocation = False, query = []\<rparr>],
         [PlacesSearch (Finite 40) (Finite (- 74)) 5000 (TString ''pizza nearby''),
          ChatCompletion ''gpt-3.5-turbo''
            [\<lparr>role = ''system'', content = ''You are a helpful assistant.''\<rparr>,
             \<lparr>role = ''user'',
              content = ''Here are some nearby places: Roma, Napoli. Please suggest the best ones to visit.''\<rparr>]
            150,
          SendMessage 1 ''Try Roma.''],
         Inr ())"
  using C1_enrichment [of "[1 \<mapsto> \<lparr>awaitingLocation = True, query = ''pizza nearby''\<rparr>]"
      "\<lparr>chat = 1, messageText = TUndefined,
         location = Some \<lparr>latitude = Finite 40, longitude = Finite (- 74)\<rparr>\<rparr>"
      "Finite 40" "Finite (- 74)"
      "constEnv True (Response (Obj (JArray [\<lparr>name = ''Roma''\<rparr>, \<lparr>name = ''Napoli''\<rparr>])))
                   (Choices [Some '' Try Roma. ''])"]
  by (simp add: getNearbyPlaces_def getSuggestionsFromGPT3_def constEnv_def isAwaiting_def
        storedQuery_def Let_def trim_def isWhiteSpace_def)

text \<open>
  C2, as stated, fails in the search-term variant: with no search term stored for the
  chat, the text "40.7,-74.0" is a coordinate pair, yet it is stored as the search term
  and answered with "Please share your location."; no lookup is made.
\<close>

theorem C2_part000_text_preempts_coordinates:
  "spec_precedence \<lparr>chat = 1, messageText = TString ''40.7,-74.0'', location = None\<rparr> = LocationRule
   \<and> handleMessage_part000 (constEnv True Failure CompletionFailure) (\<lambda>_. TUndefined)
        \<lparr>chat = 1, messageText = TString ''40.7,-74.0'', location = None\<rparr>
      = ((\<lambda>_. TUndefined)(1 := TString ''40.7,-74.0''),
         [SendMessage 1 ''Please share your location.''],
         Inr ())"
proof -
  have v: "isValidCoordinates (TString ''40.7,-74.0'')"
    by (simp add: isValidCoordinates_def coordinatesRE_def signedDecimalRE_def Opt_def Plus_def
          isDigit_def)
  have t: "trim ''40.7,-74.0'' = ''40.7,-74.0''"
    by (simp add: trim_def isWhiteSpace_def)
  show ?thesis
    using v t
    by (simp add: spec_precedence_def handleMessage_part000_def sendMessage_def constEnv_def
          Let_def)
qed

text \<open>
  C2, amended. In index.mjs the rules are tried in the order: "/start"; a location
  payload or a coordinate text; the classifier on any other text. An earlier rule
  preempts the later ones. In bot.mjs "/start" comes first, a location or a coordinate
  text second, and every other message gets the fixed format hint: there is no
  classifier. In the search-term variant "/start" comes first; a non-empty text arriving
  while no search term is stored becomes the search term, also when it is a coordinate
  pair; otherwise a location or a coordinate text comes next, and every other message
  gets the fixed format hint.
\<close>

theorem C2_precedence:
  \<open>(spec_precedence m = StartRule \<longrightarrow>
      handleMessage e st m =
        (st(chat m \<mapsto> \<lparr>awaitingLocation = False, query = []\<rparr>),
         [SendMessage (chat m) ''Hello! How can I assist you today? Ask me anything!''],
         snd (sendMessage e (chat m) ''Hello! How can I assist you today? Ask me anything!''))
      \<and> handleMessage_bot e m =
          sendMessage e (chat m)
            ''Hello! Please share your location to get nearby amusment park suggestions. You can also send your location coordinates in the format "latitude,longitude".''
      \<and> handleMessage_part000 e terms m =
          (terms(chat m := TNull),
           [SendMessage (chat m)
              ''Hello! What do you want to search nearby? Please enter your query.''],
           snd (sendMessage e (chat m)
                  ''Hello! What do you want to search nearby? Please enter your query.'')))
   \<and> (spec_precedence m = LocationRule \<longrightarrow>
        (isAwaiting st (chat m) \<longrightarrow>
           (\<exists>lat lon.
              (location m = Some \<lparr>latitude = lat, longitude = lon\<rparr>
               \<or> (location m = None
                  \<and> (\<exists>t. messageText m = TString t \<and> splitCoordinates t = (lat, lon))))
              \<and> handleMessage e st m =
                  handleLocation e st (chat m) lat lon (storedQuery st (chat m))))
        \<and> (\<not> isAwaiting st (chat m) \<longrightarrow>
             fst (handleMessage e st m) = st
             \<and> (fst (snd (handleMessage e st m)) =
                   [SendMessage (chat m)
                      ''Thank you for sharing your location! What information do you need?'']
                \<or> fst (snd (handleMessage e st m)) =
                   [SendMessage (chat m)
                      ''Thank you for sharing your coordinates! What information do you need?'']))
        \<and> (\<exists>lat lon.
              (location m = Some \<lparr>latitude = lat, longitude = lon\<rparr>
               \<or> (location m = None
                  \<and> (\<exists>t. messageText m = TString t \<and> splitCoordinates t = (lat, lon))))
              \<and> handleMessage_bot e m = handleLocation_bot e (chat m) lat lon)
        \<and> (truthyText (terms (chat m)) \<or> \<not> truthyText (messageText m) \<longrightarrow>
             (\<exists>lat lon.
                (location m = Some \<lparr>latitude = lat, longitude = lon\<rparr>
                 \<or> (location m = None
                    \<and> (\<exists>t. messageText m = TString t \<and> splitCoordinates t = (lat, lon))))
                \<and> handleMessage_part000 e terms m =
                    handleLocation_part000 e terms (chat m) lat lon)))
   \<and> (spec_precedence m = FreeTextRule \<longrightarrow>
        (\<forall>t. messageText m = TString t \<longrightarrow>
           (checkIfLocationBased t \<longrightarrow>
              fst (handleMessage e st m) =
                st(chat m \<mapsto> \<lparr>awaitingLocation = True, query = trim t\<rparr>)
              \<and> fst (snd (handleMessage e st m)) =
                  [SendMessage (chat m)
                     ''Got it! Now, please share your location for more accurate suggestions.''])
           \<and> (\<not> checkIfLocationBased t \<longrightarrow>
                fst (handleMessage e st m) = st
                \<and> hd (fst (snd (handleMessage e st m))) =
                    ChatCompletion ''gpt-3.5-turbo''
                      [\<lparr>role = ''system'', content = ''You are a helpful assistant.''\<rparr>,
                       \<lparr>role = ''user'', content = t\<rparr>]
                      150))
        \<and> handleMessage_bot e m =
            sendMessage e (chat m)
              ''Please send your location or coordinates in the format "latitude,longitude".''
        \<and> (truthyText (terms (chat m)) \<or> \<not> truthyText (messageText m) \<longrightarrow>
             handleMessage_part000 e terms m =
               (terms,
                [SendMessage (chat m)
                   ''Please send your location or coordinates in the format "latitude,longitude".''],
                snd (sendMessage e (chat m)
                       ''Please send your location or coordinates in the format "latitude,longitude".''))))
   \<and> (spec_precedence m \<noteq> StartRule \<and> \<not> truthyText (terms (chat m)) \<longrightarrow>
        (\<forall>t. messageText m = TString t \<and> t \<noteq> [] \<longrightarrow>
           handleMessage_part000 e terms m =
             (terms(chat m := TString (trim t)),
              [SendMessage (chat m) ''Please share your location.''],
              snd (sendMessage e (chat m) ''Please share your location.''))))\<close>
proof (intro conjI impI allI)
  assume s: "spec_precedence m = StartRule"
  show "handleMessage e st m =
        (st(chat m \<mapsto> \<lparr>awaitingLocation = False, query = []\<rparr>),
         [SendMessage (chat m) ''Hello! How can I assist you today? Ask me anything!''],
         snd (sendMessage e (chat m) ''Hello! How can I assist you today? Ask me anything!''))"
    using s by (rule index_start)
  show \<open>handleMessage_bot e m =
          sendMessage e (chat m)
            ''Hello! Please share your location to get nearby amusment park suggestions. You can also send your location coordinates in the format "latitude,longitude".''\<close>
    using s by (rule bot_start)
  show "handleMessage_part000 e terms m =
          (terms(chat m := TNull),
           [SendMessage (chat m)
              ''Hello! What do you want to search nearby? Please enter your query.''],
           snd (sendMessage e (chat m)
                  ''Hello! What do you want to search nearby? Please enter your query.''))"
    using s by (rule part000_start)
next
  assume l: "spec_precedence m = LocationRule"
  show "\<exists>lat lon.
              (location m = Some \<lparr>latitude = lat, longitude = lon\<rparr>
               \<or> (location m = None
                  \<and> (\<exists>t. messageText m = TString t \<and> splitCoordinates t = (lat, lon))))
              \<and> handleMessage e st m =
                  handleLocation e st (chat m) lat lon (storedQuery st (chat m))"
    if "isAwaiting st (chat m)"
    using l that by (rule index_location_awaiting)
  show "fst (handleMessage e st m) = st" if "\<not> isAwaiting st (chat m)"
    using index_location_idle [OF l that] by blast
  show "fst (snd (handleMessage e st m)) =
                   [SendMessage (chat m)
                      ''Thank you for sharing your location! What information do you need?'']
                \<or> fst (snd (handleMessage e st m)) =
                   [SendMessage (chat m)
                      ''Thank you for sharing your coordinates! What information do you need?'']"
    if "\<not> isAwaiting st (chat m)"
    using index_location_idle [OF l that] by blast
  show "\<exists>lat lon.
              (location m = Some \<lparr>latitude = lat, longitude = lon\<rparr>
               \<or> (location m = None
                  \<and> (\<exists>t. messageText m = TString t \<and> splitCoordinates t = (lat, lon))))
              \<and> handleMessage_bot e m = handleLocation_bot e (chat m) lat lon"
    using l by (rule bot_location)
  show "\<exists>lat lon.
                (location m = Some \<lparr>latitude = lat, longitude = lon\<rparr>
                 \<or> (location m = None
                    \<and> (\<exists>t. messageText m = TString t \<and> splitCoordinates t = (lat, lon))))
                \<and> handleMessage_part000 e terms m =
                    handleLocation_part000 e terms (chat m) lat lon"
    if "truthyText (terms (chat m)) \<or> \<not> truthyText (messageText m)"
    using l that by (rule part000_location)
next
  assume f: "spec_precedence m = FreeTextRule"
  show "fst (handleMessage e st m) =
                st(chat m \<mapsto> \<lparr>awaitingLocation = True, query = trim t\<rparr>)"
    if "messageText m = TString t" "checkIfLocationBased t" for t
    using index_freeText [OF f that(1)] that(2) by blast
  show "fst (snd (handleMessage e st m)) =
                  [SendMessage (chat m)
                     ''Got it! Now, please share your location for more accurate suggestions.'']"
    if "messageText m = TString t" "checkIfLocationBased t" for t
    using index_freeText [OF f that(1)] that(2) by blast
  show "fst (handleMessage e st m) = st"
    if "messageText m = TString t" "\<not> checkIfLocationBased t" for t
    using index_freeText [OF f that(1)] that(2) by blast
  show "hd (fst (snd (handleMessage e st m))) =
                    ChatCompletion ''gpt-3.5-turbo''
                      [\<lparr>role = ''system'', content = ''You are a helpful assistant.''\<rparr>,
                       \<lparr>role = ''user'', content = t\<rparr>]
                      150"
    if "messageText m = TString t" "\<not> checkIfLocationBased t" for t
    using index_freeText [OF f that(1)] that(2) by blast
  show \<open>handleMessage_bot e m =
            sendMessage e (chat m)
              ''Please send your location or coordinates in the format "latitude,longitude".''\<close>
    using f by (rule bot_freeText)
  show \<open>handleMessage_part000 e terms m =
               (terms,
                [SendMessage (chat m)
                   ''Please send your location or coordinates in the format "latitude,longitude".''],
                snd (sendMessage e (chat m)
                       ''Please send your location or coordinates in the format "latitude,longitude".''))\<close>
    if "truthyText (terms (chat m)) \<or> \<not> truthyText (messageText m)"
    using f that by (rule part000_freeText)
next
  fix t
  assume "spec_precedence m \<noteq> StartRule \<and> \<not> truthyText (terms (chat m))"
    and "messageText m = TString t \<and> t \<noteq> []"
  then show "handleMessage_part000 e terms m =
             (terms(chat m := TString (trim t)),
              [SendMessage (chat m) ''Please share your location.''],
              snd (sendMessage e (chat m) ''Please share your location.''))"
    using part000_term by blast
qed

theorem C2_precedence_witness:
  "spec_precedence
     \<lparr>chat = 1, messageText = TString ''/start'',
      location = Some \<lparr>latitude = Finite 40, longitude = Finite (- 74)\<rparr>\<rparr> = StartRule
   \<and> handleMessage (constEnv True Failure CompletionFailure)
        [1 \<mapsto> \<lparr>awaitingLocation = True, query = ''pizza nearby''\<rparr>]
        \<lparr>chat = 1, messageText = TString ''/start'',
         location = Some \<lparr>latitude = Finite 40, longitude = Finite (- 74)\<rparr>\<rparr>
      = ([1 \<mapsto> \<lparr>awaitingLocation = False, query = []\<rparr>],
         [SendMessage 1 ''Hello! How can I assist you today? Ask me anything!''],
         Inr ())
   \<and> spec_precedence
       \<lparr>chat = 2, messageText = TString ''pizza nearby'',
        location = Some \<lparr>latitude = Finite 40, longitude = Finite (- 74)\<rparr>\<rparr> = LocationRule
   \<and> checkIfLocationBased ''pizza nearby''
   \<and> fst (handleMessage (constEnv True Failure CompletionFailure)
        [1 \<mapsto> \<lparr>awaitingLocation = True, query = ''pizza nearby''\<rparr>]
        \<lparr>chat = 2, messageText = TString ''pizza nearby'',
         location = Some \<lparr>latitude = Finite 40, longitude = Finite (- 74)\<rparr>\<rparr>)
      = [1 \<mapsto> \<lparr>awaitingLocation = True, query = ''pizza nearby''\<rparr>]"
proof -
  have c: "checkIfLocationBased ''pizza nearby''"
    by (simp add: checkIfLocationBased_def locationKeywords_def toLowerCase_def toLowerChar_def)
  have p1: "spec_precedence
     \<lparr>chat = 1, messageText = TString ''/start'',
      location = Some \<lparr>latitude = Finite 40, longitude = Finite (- 74)\<rparr>\<rparr> = StartRule"
    by (simp add: spec_precedence_def)
  have p2: "spec_precedence
       \<lparr>chat = 2, messageText = TString ''pizza nearby'',
        location = Some \<lparr>latitude = Finite 40, longitude = Finite (- 74)\<rparr>\<rparr> = LocationRule"
    by (simp add: spec_precedence_def)
  have i: "\<not> isAwaiting [1 \<mapsto> \<lparr>awaitingLocation = True, query = ''pizza nearby''\<rparr>] 2"
    by (simp add: isAwaiting_def)
  show ?thesis
    using c p1 p2 i
      C2_precedence
        [of "\<lparr>chat = 1, messageText = TString ''/start'',
              location = Some \<lparr>latitude = Finite 40, longitude = Finite (- 74)\<rparr>\<rparr>"
            "constEnv True Failure CompletionFailure"
            "[1 \<mapsto> \<lparr>awaitingLocation = True, query = ''pizza nearby''\<rparr>]" "\<lambda>_. TUndefined"]
      C2_precedence
        [of "\<lparr>chat = 2, messageText = TString ''pizza nearby'',
              location = Some \<lparr>latitude = Finite 40, longitude = Finite (- 74)\<rparr>\<rparr>"
            "constEnv True Failure CompletionFailure"
            "[1 \<mapsto> \<lparr>awaitingLocation = True, query = ''pizza nearby''\<rparr>]" "\<lambda>_. TUndefined"]
    by (simp add: sendMessage_def constEnv_def)
qed



text \<open>
  C4. For every string, the classifier answers true exactly when the lowercased string
  contains one of the six keywords as a contiguous substring. The answer depends on the
  lowercased text only, so it is the same for the text, its upper-case form and its
  lower-case form. It is true on "Where is a good place to eat" and on "placement", and
  false on "What is the capital of France".
\<close>

theorem C4_classifier:
  "(checkIfLocationBased s \<longleftrightarrow>
      (\<exists>k \<in> {''nearby'', ''close to'', ''around'', ''location'', ''near'', ''place''}.
         \<exists>u v. toLowerCase s = u @ k @ v))
   \<and> checkIfLocationBased (toUpperCase s) = checkIfLocationBased s
   \<and> checkIfLocationBased (toLowerCase s) = checkIfLocationBased s
   \<and> checkIfLocationBased ''Where is a good place to eat''
   \<and> checkIfLocationBased ''placement''
   \<and> \<not> checkIfLocationBased ''What is the capital of France''"
proof -
  have iff: "checkIfLocationBased s \<longleftrightarrow>
      (\<exists>k \<in> {''nearby'', ''close to'', ''around'', ''location'', ''near'', ''place''}.
         \<exists>u v. toLowerCase s = u @ k @ v)"
    by (simp add: checkIfLocationBased_def locationKeywords_def includesJS_sublist sublist_def)
  have up: "checkIfLocationBased (toUpperCase s) = checkIfLocationBased s"
    by (simp add: checkIfLocationBased_def toLowerCase_toUpperCase)
  have low: "checkIfLocationBased (toLowerCase s) = checkIfLocationBased s"
    by (simp add: checkIfLocationBased_def toLowerCase_idem)
  have e1: "checkIfLocationBased ''Where is a good place to eat''"
    by (simp add: checkIfLocationBased_def locationKeywords_def toLowerCase_def toLowerChar_def)
  have e2: "checkIfLocationBased ''placement''"
    by (simp add: checkIfLocationBased_def locationKeywords_def toLowerCase_def toLowerChar_def)
  have e3: "\<not> checkIfLocationBased ''What is the capital of France''"
    by (simp add: checkIfLocationBased_def locationKeywords_def toLowerCase_def toLowerChar_def)
  from iff up low e1 e2 e3 show ?thesis by blast
qed

theorem C4_classifier_witness:
  "checkIfLocationBased ''Pizza NEARBY''
   \<and> (\<exists>k \<in> {''nearby'', ''close to'', ''around'', ''location'', ''near'', ''place''}.
         \<exists>u v. toLowerCase ''Pizza NEARBY'' = u @ k @ v)"
proof -
  have c: "checkIfLocationBased ''Pizza NEARBY''"
    by (simp add: checkIfLocationBased_def locationKeywords_def toLowerCase_def toLowerChar_def)
  with C4_classifier [of "''Pizza NEARBY''"] show ?thesis by blast
qed

text \<open>
  C5, as stated, fails on the radius: the lookup of bot.mjs searches with a radius of
  100000 meters.
\<close>

theorem C5_bot_radius:
  "fst (getNearbyAmusementParks (constEnv True Failure CompletionFailure) (Finite 40) (Finite (- 74)))
     = [PlacesSearch (Finite 40) (Finite (- 74)) 100000 (TString ''amusement'')]
   \<and> (100000 :: nat) \<noteq> 5000"
  by (simp add: getNearbyAmusementParks_def Let_def)

text \<open>
  C5, amended. The lookups of index.mjs and of the search-term variant search with a
  radius of 5000 meters, the lookup of bot.mjs with 100000 meters. No lookup propagates
  an error: when the provider call fails or the decoded body is null or undefined, each
  returns an empty sequence, and in index.mjs so does a body whose \<open>results\<close> is missing
  or null, while a body with a list of places returns that list. A failed lookup and an
  empty result lead \<open>handleLocation\<close> to the same outcome.
\<close>

theorem C5_places_lookup:
  "fst (getNearbyPlaces e lat lon q) = [PlacesSearch lat lon 5000 (TString q)]
   \<and> fst (getNearbyPlaces_part000 e lat lon term) = [PlacesSearch lat lon 5000 term]
   \<and> fst (getNearbyAmusementParks e lat lon) = [PlacesSearch lat lon 100000 (TString ''amusement'')]
   \<and> (placesResponse e lat lon 5000 (TString q)
         \<in> {Failure, Response Nullish, Response (Obj JUndefined), Response (Obj JNull)} \<longrightarrow>
       snd (getNearbyPlaces e lat lon q) = JArray [])
   \<and> (placesResponse e lat lon 5000 term \<in> {Failure, Response Nullish} \<longrightarrow>
       snd (getNearbyPlaces_part000 e lat lon term) = JArray [])
   \<and> (placesResponse e lat lon 100000 (TString ''amusement'') \<in> {Failure, Response Nullish} \<longrightarrow>
       snd (getNearbyAmusementParks e lat lon) = JArray [])
   \<and> (\<forall>places. placesResponse e lat lon 5000 (TString q) = Response (Obj (JArray places)) \<longrightarrow>
         snd (getNearbyPlaces e lat lon q) = JArray places)
   \<and> (\<forall>e'. placesResponse e lat lon 5000 (TString q) = Failure
              \<and> placesResponse e' lat lon 5000 (TString q) = Response (Obj (JArray []))
              \<and> fetchSend e' = fetchSend e \<longrightarrow>
         handleLocation e st chatId lat lon q = handleLocation e' st chatId lat lon q)"
proof -
  have hl: "handleLocation e st chatId lat lon q = handleLocation e' st chatId lat lon q"
    if "placesResponse e lat lon 5000 (TString q) = Failure"
      and "placesResponse e' lat lon 5000 (TString q) = Response (Obj (JArray []))"
      and "fetchSend e' = fetchSend e" for e'
  proof -
    have "snd (getNearbyPlaces e lat lon q) = JArray []"
      using that(1) by (simp add: getNearbyPlaces_def Let_def)
    moreover have "snd (getNearbyPlaces e' lat lon q) = JArray []"
      using that(2) by (simp add: getNearbyPlaces_def Let_def)
    ultimately show ?thesis
      using that(3) by (simp add: handleLocation_empty)
  qed
  have a: "fst (getNearbyPlaces e lat lon q) = [PlacesSearch lat lon 5000 (TString q)]"
    by (simp add: getNearbyPlaces_def Let_def)
  have b: "fst (getNearbyPlaces_part000 e lat lon term) = [PlacesSearch lat lon 5000 term]"
    by (simp add: getNearbyPlaces_part000_def Let_def)
  have c: "fst (getNearbyAmusementParks e lat lon)
             = [PlacesSearch lat lon 100000 (TString ''amusement'')]"
    by (simp add: getNearbyAmusementParks_def Let_def)
  have d: "placesResponse e lat lon 5000 (TString q)
         \<in> {Failure, Response Nullish, Response (Obj JUndefined), Response (Obj JNull)} \<longrightarrow>
       snd (getNearbyPlaces e lat lon q) = JArray []"
    by (auto simp add: getNearbyPlaces_def Let_def)
  have f: "placesResponse e lat lon 5000 term \<in> {Failure, Response Nullish} \<longrightarrow>
       snd (getNearbyPlaces_part000 e lat lon term) = JArray []"
    by (auto simp add: getNearbyPlaces_part000_def Let_def)
  have g: "placesResponse e lat lon 100000 (TString ''amusement'') \<in> {Failure, Response Nullish} \<longrightarrow>
       snd (getNearbyAmusementParks e lat lon) = JArray []"
    by (auto simp add: getNearbyAmusementParks_def Let_def)
  have h: "\<forall>places. placesResponse e lat lon 5000 (TString q) = Response (Obj (JArray places)) \<longrightarrow>
         snd (getNearbyPlaces e lat lon q) = JArray places"
    by (simp add: getNearbyPlaces_def Let_def)
  from a b c d f g h hl show ?thesis by blast
qed

theorem C5_places_lookup_witness:
  "getNearbyPlaces (constEnv True Failure CompletionFailure) (Finite 40) (Finite (- 74)) ''pizza''
     = ([PlacesSearch (Finite 40) (Finite (- 74)) 5000 (TString ''pizza'')], JArray [])
   \<and> handleLocation (constEnv True Failure CompletionFailure) Map.empty 1 (Finite 40) (Finite (- 74)) ''pizza''
     = handleLocation (constEnv True (Response (Obj (JArray []))) CompletionFailure) Map.empty 1
         (Finite 40) (Finite (- 74)) ''pizza''"
  using C5_places_lookup
    [of "constEnv True Failure CompletionFailure" "Finite 40" "Finite (- 74)" "''pizza''" TNull
        Map.empty 1]
  by (simp add: constEnv_def prod_eq_iff)

text \<open>
  C6. From any conversation state, a "/start" message sets the chat to Idle with an
  empty pending query and replies with the fixed greeting; a second "/start" right
  after the first leaves the same state and sends the same greeting.
\<close>

theorem C6_start_idempotent:
  assumes "messageText m = TString ''/start''"
  shows "fst (handleMessage e st m) = st(chat m \<mapsto> \<lparr>awaitingLocation = False, query = []\<rparr>)
       \<and> \<not> isAwaiting (fst (handleMessage e st m)) (chat m)
       \<and> storedQuery (fst (handleMessage e st m)) (chat m) = []
       \<and> fst (snd (handleMessage e st m)) =
            [SendMessage (chat m) ''Hello! How can I assist you today? Ask me anything!'']
       \<and> fst (handleMessage e (fst (handleMessage e st m)) m) = fst (handleMessage e st m)
       \<and> fst (snd (handleMessage e (fst (handleMessage e st m)) m))
            = fst (snd (handleMessage e st m))"
  using assms
  by (simp add: handleMessage_def sendMessage_def Let_def isAwaiting_def storedQuery_def)

theorem C6_start_idempotent_witness:
  "fst (handleMessage (constEnv True Failure CompletionFailure)
          [7 \<mapsto> \<lparr>awaitingLocation = True, query = ''pizza nearby''\<rparr>]
          \<lparr>chat = 7, messageText = TString ''/start'', location = None\<rparr>)
     = [7 \<mapsto> \<lparr>awaitingLocation = False, query = []\<rparr>]
   \<and> fst (snd (handleMessage (constEnv True Failure CompletionFailure)
          [7 \<mapsto> \<lparr>awaitingLocation = True, query = ''pizza nearby''\<rparr>]
          \<lparr>chat = 7, messageText = TString ''/start'', location = None\<rparr>))
     = [SendMessage 7 ''Hello! How can I assist you today? Ask me anything!'']"
  using C6_start_idempotent
    [of "\<lparr>chat = 7, messageText = TString ''/start'', location = None\<rparr>"
        "constEnv True Failure CompletionFailure"
        "[7 \<mapsto> \<lparr>awaitingLocation = True, query = ''pizza nearby''\<rparr>]"]
  by simp

text \<open>
  C7. For a non-empty list of places, the one request \<open>getSuggestionsFromGPT3\<close> makes
  carries the user message "Here are some nearby places: NAMES. Please suggest the best
  ones to visit.", where NAMES is the names joined by a comma and a space in the order of
  the list; when the lookup of \<open>handleLocation\<close> returns that list, this request is the
  second external call of the handler. The joined text is the first name followed by
  each further name, in list order, each preceded by the separator.
\<close>

theorem C7_enrichment_prompt:
  assumes "places \<noteq> []"
  shows "fst (getSuggestionsFromGPT3 e places) =
           [ChatCompletion ''gpt-3.5-turbo''
              [\<lparr>role = ''system'', content = ''You are a helpful assistant.''\<rparr>,
               \<lparr>role = ''user'',
                content = ''Here are some nearby places: '' @ join '', '' (map name places)
                          @ ''. Please suggest the best ones to visit.''\<rparr>]
              150]
       \<and> (\<forall>lat lon q st chatId.
             snd (getNearbyPlaces e lat lon q) = JArray places \<longrightarrow>
             fst (snd (handleLocation e st chatId lat lon q)) ! 1 =
               ChatCompletion ''gpt-3.5-turbo''
                 [\<lparr>role = ''system'', content = ''You are a helpful assistant.''\<rparr>,
                  \<lparr>role = ''user'',
                   content = ''Here are some nearby places: '' @ join '', '' (map name places)
                             @ ''. Please suggest the best ones to visit.''\<rparr>]
                 150)
       \<and> join '', '' (map name places) = name (hd places) @ concat (map (\<lambda>p. '', '' @ name p) (tl places))"
proof -
  obtain p ps where pl: "places = p # ps" using assms by (cases places) auto
  have a: "fst (getSuggestionsFromGPT3 e places) =
           [ChatCompletion ''gpt-3.5-turbo''
              [\<lparr>role = ''system'', content = ''You are a helpful assistant.''\<rparr>,
               \<lparr>role = ''user'',
                content = ''Here are some nearby places: '' @ join '', '' (map name places)
                          @ ''. Please suggest the best ones to visit.''\<rparr>]
              150]"
    by (rule getSuggestionsFromGPT3_events)
  have b: "fst (snd (handleLocation e st chatId lat lon q)) ! 1 = hd (fst (getSuggestionsFromGPT3 e places))"
    if "snd (getNearbyPlaces e lat lon q) = JArray places" for lat lon q st chatId
    using that unfolding pl
    by (cases "getNearbyPlaces e lat lon q"; cases "getSuggestionsFromGPT3 e (p # ps)";
        cases "snd (getSuggestionsFromGPT3 e (p # ps))")
       (auto simp add: handleLocation_def getNearbyPlaces_def getSuggestionsFromGPT3_def
          sendMessage_def Let_def)
  have c: "join sep (x # xs) = x @ concat (map (\<lambda>y. sep @ y) xs)" for sep x xs
    by (induction xs arbitrary: x) simp_all
  have d: "join '', '' (map name places) = name (hd places) @ concat (map (\<lambda>p. '', '' @ name p) (tl places))"
    unfolding pl by (simp add: c comp_def del: join.simps)
  from a b d show ?thesis by simp
qed

theorem C7_enrichment_prompt_witness:
  "fst (getSuggestionsFromGPT3 (constEnv True Failure CompletionFailure)
          [\<lparr>name = ''Roma''\<rparr>, \<lparr>name = ''Napoli''\<rparr>, \<lparr>name = ''Bari''\<rparr>]) =
     [ChatCompletion ''gpt-3.5-turbo''
        [\<lparr>role = ''system'', content = ''You are a helpful assistant.''\<rparr>,
         \<lparr>role = ''user'',
          content = ''Here are some nearby places: Roma, Napoli, Bari. Please suggest the best ones to visit.''\<rparr>]
        150]"
  using C7_enrichment_prompt
    [of "[\<lparr>name = ''Roma''\<rparr>, \<lparr>name = ''Napoli''\<rparr>, \<lparr>name = ''Bari''\<rparr>]"
        "constEnv True Failure CompletionFailure"]
  by simp

text \<open>
  C8. Every Summarizer call site (the direct question and the place enrichment of
  index.mjs, the enrichment of bot.mjs) makes exactly one completion request: the model
  gpt-3.5-turbo, the system message "You are a helpful assistant." followed by one user
  message holding the prompt, and a cap of 150 tokens. When the provider answers with a
  first choice that has text, the result is that text trimmed: the text with leading and
  trailing white space removed.
\<close>

theorem C8_summarizer_request:
  "fst (getChatGPTResponse e userQuery) =
     [ChatCompletion ''gpt-3.5-turbo''
        [\<lparr>role = ''system'', content = ''You are a helpful assistant.''\<rparr>,
         \<lparr>role = ''user'', content = userQuery\<rparr>]
        150]
   \<and> (completion e ''gpt-3.5-turbo''
         [\<lparr>role = ''system'', content = ''You are a helpful assistant.''\<rparr>,
          \<lparr>role = ''user'', content = userQuery\<rparr>]
         150 = Choices (Some c # cs) \<longrightarrow>
       snd (getChatGPTResponse e userQuery) = Inr (trim c))
   \<and> fst (getSuggestionsFromGPT3 e places) =
       [ChatCompletion ''gpt-3.5-turbo''
          [\<lparr>role = ''system'', content = ''You are a helpful assistant.''\<rparr>,
           \<lparr>role = ''user'',
            content = ''Here are some nearby places: '' @ join '', '' (map name places)
                      @ ''. Please suggest the best ones to visit.''\<rparr>]
          150]
   \<and> (completion e ''gpt-3.5-turbo''
         [\<lparr>role = ''system'', content = ''You are a helpful assistant.''\<rparr>,
          \<lparr>role = ''user'',
           content = ''Here are some nearby places: '' @ join '', '' (map name places)
                     @ ''. Please suggest the best ones to visit.''\<rparr>]
         150 = Choices (Some c # cs) \<longrightarrow>
       snd (getSuggestionsFromGPT3 e places) = Inr (trim c))
   \<and> fst (getSuggestionsFromGPT3_bot e places) =
       [ChatCompletion ''gpt-3.5-turbo''
          [\<lparr>role = ''system'', content = ''You are a helpful assistant.''\<rparr>,
           \<lparr>role = ''user'',
            content = ''Here are some nearby amusementParks: '' @ join '', '' (map name places)
                      @ ''. Please suggest the best ones to visit.''\<rparr>]
          150]
   \<and> (completion e ''gpt-3.5-turbo''
         [\<lparr>role = ''system'', content = ''You are a helpful assistant.''\<rparr>,
          \<lparr>role = ''user'',
           content = ''Here are some nearby amusementParks: '' @ join '', '' (map name places)
                     @ ''. Please suggest the best ones to visit.''\<rparr>]
         150 = Choices (Some c # cs) \<longrightarrow>
       snd (getSuggestionsFromGPT3_bot e places) = Inr (trim c))
   \<and> (\<exists>u v. c = u @ trim c @ v \<and> list_all isWhiteSpace u \<and> list_all isWhiteSpace v
          \<and> (trim c \<noteq> [] \<longrightarrow> \<not> isWhiteSpace (hd (trim c)) \<and> \<not> isWhiteSpace (last (trim c))))"
proof -
  have t: "\<exists>u v. c = u @ trim c @ v \<and> list_all isWhiteSpace u \<and> list_all isWhiteSpace v
          \<and> (trim c \<noteq> [] \<longrightarrow> \<not> isWhiteSpace (hd (trim c)) \<and> \<not> isWhiteSpace (last (trim c)))"
    by (rule trim_spec)
  show ?thesis
    using t
    by (simp add: getChatGPTResponse_def getSuggestionsFromGPT3_def getSuggestionsFromGPT3_bot_def
          Let_def)
qed

theorem C8_summarizer_request_witness:
  "getChatGPTResponse (constEnv True Failure (Choices [Some ''  Paris.  '', Some ''Lyon'']))
     ''What is the capital of France'' =
     ([ChatCompletion ''gpt-3.5-turbo''
         [\<lparr>role = ''system'', content = ''You are a helpful assistant.''\<rparr>,
          \<lparr>role = ''user'', content = ''What is the capital of France''\<rparr>]
         150],
      Inr ''Paris.'')"
proof -
  have t: "trim ''  Paris.  '' = ''Paris.''"
    by (simp add: trim_def isWhiteSpace_def)
  have c: "completion (constEnv True Failure (Choices [Some ''  Paris.  '', Some ''Lyon'']))
             ''gpt-3.5-turbo''
             [\<lparr>role = ''system'', content = ''You are a helpful assistant.''\<rparr>,
              \<lparr>role = ''user'', content = ''What is the capital of France''\<rparr>]
             150 = Choices (Some ''  Paris.  '' # [Some ''Lyon''])"
    by (simp add: constEnv_def)
  show ?thesis
    using C8_summarizer_request
      [of "constEnv True Failure (Choices [Some ''  Paris.  '', Some ''Lyon''])"
          "''What is the capital of France''" "''  Paris.  ''" "[Some ''Lyon'']"] c t
    by (simp add: prod_eq_iff)
qed

text \<open>
  C9, as stated for every starting state, fails where the chat is awaiting a location:
  the text "What's the weather like" is answered by the Summarizer and the state is
  unchanged, so the chat is still awaiting a location and is not Idle.
\<close>

theorem C9_awaiting_stays_awaiting:
  "\<not> isValidCoordinates (TString ''What's the weather like'')
   \<and> \<not> checkIfLocationBased ''What's the weather like''
   \<and> isAwaiting [3 \<mapsto> \<lparr>awaitingLocation = True, query = ''pizza nearby''\<rparr>] 3
   \<and> handleMessage (constEnv True Failure (Choices [Some ''Sunny.'']))
        [3 \<mapsto> \<lparr>awaitingLocation = True, query = ''pizza nearby''\<rparr>]
        \<lparr>chat = 3, messageText = TString ''What's the weather like'', location = None\<rparr>
      = ([3 \<mapsto> \<lparr>awaitingLocation = True, query = ''pizza nearby''\<rparr>],
         [ChatCompletion ''gpt-3.5-turbo''
            [\<lparr>role = ''system'', content = ''You are a helpful assistant.''\<rparr>,
             \<lparr>role = ''user'', content = ''What's the weather like''\<rparr>]
            150,
          SendMessage 3 ''Sunny.''],
         Inr ())
   \<and> isAwaiting
        (fst (handleMessage (constEnv True Failure (Choices [Some ''Sunny.'']))
                [3 \<mapsto> \<lparr>awaitingLocation = True, query = ''pizza nearby''\<rparr>]
                \<lparr>chat = 3, messageText = TString ''What's the weather like'', location = None\<rparr>)) 3"
proof -
  have v: "\<not> isValidCoordinates (TString ''What's the weather like'')"
    by (simp add: isValidCoordinates_def coordinatesRE_def signedDecimalRE_def Opt_def Plus_def
          isDigit_def)
  have c: "\<not> checkIfLocationBased ''What's the weather like''"
    by (simp add: checkIfLocationBased_def locationKeywords_def toLowerCase_def toLowerChar_def)
  have g: "getChatGPTResponse (constEnv True Failure (Choices [Some ''Sunny.'']))
             ''What's the weather like'' =
           ([ChatCompletion ''gpt-3.5-turbo''
               [\<lparr>role = ''system'', content = ''You are a helpful assistant.''\<rparr>,
                \<lparr>role = ''user'', content = ''What's the weather like''\<rparr>]
               150], Inr ''Sunny.'')"
    by (simp add: getChatGPTResponse_def constEnv_def Let_def trim_def isWhiteSpace_def)
  show ?thesis
    using v c g
    by (simp add: handleMessage_def Let_def sendMessage_def constEnv_def isAwaiting_def)
qed

text \<open>
  C9, amended. A text message that is not "/start", carries no location, is not accepted
  by the coordinate test and is not classified as location-seeking: the first external
  call is the completion request whose user message is the text itself; when the
  Summarizer returns a result, that result is the reply; and the conversation state is
  the one before the message, for every starting state: an Idle chat stays Idle, and a
  chat awaiting a location stays so with the same pending query.
\<close>

theorem C9_direct_question:
  assumes "messageText m = TString t" and "t \<noteq> ''/start''" and "location m = None"
    and "\<not> isValidCoordinates (TString t)" and "\<not> checkIfLocationBased t"
  shows "fst (handleMessage e st m) = st
       \<and> (\<not> isAwaiting st (chat m) \<longrightarrow> \<not> isAwaiting (fst (handleMessage e st m)) (chat m))
       \<and> (isAwaiting st (chat m) \<longrightarrow>
            isAwaiting (fst (handleMessage e st m)) (chat m)
            \<and> storedQuery (fst (handleMessage e st m)) (chat m) = storedQuery st (chat m))
       \<and> hd (fst (snd (handleMessage e st m))) =
            ChatCompletion ''gpt-3.5-turbo''
              [\<lparr>role = ''system'', content = ''You are a helpful assistant.''\<rparr>,
               \<lparr>role = ''user'', content = t\<rparr>]
              150
       \<and> (\<forall>r. snd (getChatGPTResponse e t) = Inr r \<longrightarrow>
             fst (snd (handleMessage e st m)) =
               [ChatCompletion ''gpt-3.5-turbo''
                  [\<lparr>role = ''system'', content = ''You are a helpful assistant.''\<rparr>,
                   \<lparr>role = ''user'', content = t\<rparr>]
                  150,
                SendMessage (chat m) r])"
proof -
  have ev: "fst (getChatGPTResponse e t) =
      [ChatCompletion ''gpt-3.5-turbo''
         [\<lparr>role = ''system'', content = ''You are a helpful assistant.''\<rparr>,
          \<lparr>role = ''user'', content = t\<rparr>]
         150]"
    by (simp add: getChatGPTResponse_def Let_def)
  show ?thesis
    using assms ev
    by (cases "getChatGPTResponse e t"; cases "snd (getChatGPTResponse e t)")
       (auto simp add: handleMessage_def sendMessage_def Let_def)
qed

theorem C9_direct_question_witness:
  "handleMessage (constEnv True Failure (Choices [Some ''Sunny.'']))
     [3 \<mapsto> \<lparr>awaitingLocation = False, query = []\<rparr>]
     \<lparr>chat = 3, messageText = TString ''What's the weather like'', location = None\<rparr>
   = ([3 \<mapsto> \<lparr>awaitingLocation = False, query = []\<rparr>],
      [ChatCompletion ''gpt-3.5-turbo''
         [\<lparr>role = ''system'', content = ''You are a helpful assistant.''\<rparr>,
          \<lparr>role = ''user'', content = ''What's the weather like''\<rparr>]
         150,
       SendMessage 3 ''Sunny.''],
      Inr ())"
proof -
  have v: "\<not> isValidCoordinates (TString ''What's the weather like'')"
    by (simp add: isValidCoordinates_def coordinatesRE_def signedDecimalRE_def Opt_def Plus_def
          isDigit_def)
  have c: "\<not> checkIfLocationBased ''What's the weather like''"
    by (simp add: checkIfLocationBased_def locationKeywords_def toLowerCase_def toLowerChar_def)
  have g: "getChatGPTResponse (constEnv True Failure (Choices [Some ''Sunny.'']))
             ''What's the weather like'' =
           ([ChatCompletion ''gpt-3.5-turbo''
               [\<lparr>role = ''system'', content = ''You are a helpful assistant.''\<rparr>,
                \<lparr>role = ''user'', content = ''What's the weather like''\<rparr>]
               150], Inr ''Sunny.'')"
    by (simp add: getChatGPTResponse_def constEnv_def Let_def trim_def isWhiteSpace_def)
  have r: "snd (snd (handleMessage (constEnv True Failure (Choices [Some ''Sunny.'']))
     [3 \<mapsto> \<lparr>awaitingLocation = False, query = []\<rparr>]
     \<lparr>chat = 3, messageText = TString ''What's the weather like'', location = None\<rparr>)) = Inr ()"
    using v c g by (simp add: handleMessage_def Let_def sendMessage_def constEnv_def)
  show ?thesis
    using C9_direct_question
      [of "\<lparr>chat = 3, messageText = TString ''What's the weather like'', location = None\<rparr>"
          "''What's the weather like''"
          "constEnv True Failure (Choices [Some ''Sunny.''])"
          "[3 \<mapsto> \<lparr>awaitingLocation = False, query = []\<rparr>]"] v c g r
    by (simp add: prod_eq_iff)
qed

text \<open>
  C10. A chat awaiting a location receives a location payload or a coordinate text, the
  lookup returns a non-empty list and the Summarizer call fails: the handler is rejected
  with that error after the lookup and the completion request, no message is sent, and
  the conversation state is unchanged: the chat is still awaiting a location with the
  same pending query.
\<close>

theorem C10_summarizer_failure:
  assumes "isAwaiting st (chat m)" and "messageText m \<noteq> TString ''/start''"
    and "location m = Some \<lparr>latitude = lat, longitude = lon\<rparr>
         \<or> (location m = None
            \<and> (\<exists>t. messageText m = TString t \<and> isValidCoordinates (TString t)
                    \<and> splitCoordinates t = (lat, lon)))"
    and "snd (getNearbyPlaces e lat lon (storedQuery st (chat m))) = JArray (p # ps)"
    and "snd (getSuggestionsFromGPT3 e (p # ps)) = Inl err"
  shows "handleMessage e st m =
           (st,
            [PlacesSearch lat lon 5000 (TString (storedQuery st (chat m))),
             ChatCompletion ''gpt-3.5-turbo''
               [\<lparr>role = ''system'', content = ''You are a helpful assistant.''\<rparr>,
                \<lparr>role = ''user'',
                 content = ''Here are some nearby places: '' @ join '', '' (map name (p # ps))
                           @ ''. Please suggest the best ones to visit.''\<rparr>]
               150],
            Inl err)
       \<and> (\<forall>c txt. SendMessage c txt \<notin> set (fst (snd (handleMessage e st m))))
       \<and> isAwaiting (fst (handleMessage e st m)) (chat m)
       \<and> storedQuery (fst (handleMessage e st m)) (chat m) = storedQuery st (chat m)"
proof -
  have eq: "handleMessage e st m = handleLocation e st (chat m) lat lon (storedQuery st (chat m))"
    using assms(1-3) by (rule handleMessage_position)
  have "handleLocation e st (chat m) lat lon (storedQuery st (chat m)) =
     (st, PlacesSearch lat lon 5000 (TString (storedQuery st (chat m)))
            # fst (getSuggestionsFromGPT3 e (p # ps)), Inl err)"
    using assms(4,5) by (rule handleLocation_summarizer_fails)
  then show ?thesis
    unfolding eq using assms(1) by (simp add: getSuggestionsFromGPT3_events)
qed

theorem C10_summarizer_failure_witness:
  "handleMessage (constEnv True (Response (Obj (JArray [\<lparr>name = ''Roma''\<rparr>]))) CompletionFailure)
     [1 \<mapsto> \<lparr>awaitingLocation = True, query = ''pizza nearby''\<rparr>]
     \<lparr>chat = 1, messageText = TUndefined,
      location = Some \<lparr>latitude = Finite 40, longitude = Finite (- 74)\<rparr>\<rparr>
   = ([1 \<mapsto> \<lparr>awaitingLocation = True, query = ''pizza nearby''\<rparr>],
      [PlacesSearch (Finite 40) (Finite (- 74)) 5000 (TString ''pizza nearby''),
       ChatCompletion ''gpt-3.5-turbo''
         [\<lparr>role = ''system'', content = ''You are a helpful assistant.''\<rparr>,
          \<lparr>role = ''user'',
           content = ''Here are some nearby places: Roma. Please suggest the best ones to visit.''\<rparr>]
         150],
      Inl ProviderError)"
  using C10_summarizer_failure
    [of "[1 \<mapsto> \<lparr>awaitingLocation = True, query = ''pizza nearby''\<rparr>]"
        "\<lparr>chat = 1, messageText = TUndefined,
          location = Some \<lparr>latitude = Finite 40, longitude = Finite (- 74)\<rparr>\<rparr>"
        "Finite 40" "Finite (- 74)"
        "constEnv True (Response (Obj (JArray [\<lparr>name = ''Roma''\<rparr>]))) CompletionFailure"
        "\<lparr>name = ''Roma''\<rparr>" "[]" ProviderError]
  by (simp add: getNearbyPlaces_def getSuggestionsFromGPT3_def constEnv_def isAwaiting_def
        storedQuery_def Let_def)

end
